theory Spec2Isabelle
  imports Complex_Main
begin

section \<open>Data model\<close>

text \<open>
  A vertex is one row of the numpy array of coordinates. The float64 coordinates of the
  source are idealised as real numbers: \<open>np.cos\<close>, \<open>np.sin\<close> and \<open>np.pi\<close> are read as
  the real cosine, sine and \<open>\<pi>\<close>. Faces and fold edges are Python lists of Python
  integers, hence lists of \<open>int\<close>.
\<close>

type_synonym vertex = "real \<times> real \<times> real"

text \<open>
  Each generator returns the tuple \<open>vertices, faces, mountain_folds, valley_folds\<close>;
  the record names its four components.
\<close>

record pattern_instance =
  vertices :: "vertex list"
  faces :: "int list list"
  mountain_folds :: "int list list"
  valley_folds :: "int list list"

text \<open>The exceptions the modelled code can raise.\<close>

datatype py_error = ZeroDivisionError | OverflowError | IndexError | ValueError

section \<open>Pattern generators\<close>

text \<open>\<open>np.radians\<close>: degrees to radians.\<close>

definition radians :: "real \<Rightarrow> real" where
  "radians deg = deg * pi / 180"

text \<open>
  \<open>create_miura_ori(size, angle)\<close>. The parameter \<open>size\<close> is written \<open>sz\<close>
  throughout, as \<open>size\<close> is a constant of HOL. The local \<open>h = size/2\<close> is bound and
  never used, as in the source.
\<close>

definition create_miura_ori :: "real \<Rightarrow> real \<Rightarrow> pattern_instance" where
  "create_miura_ori sz angle =
     (let theta = radians angle;
          a = sz;
          b = sz;
          h = sz / 2
      in \<lparr>vertices =
            [(0, 0, 0),
             (a * cos theta, 0, a * sin theta),
             (a * cos theta, b, a * sin theta),
             (0, b, 0),
             (2 * a * cos theta, 0, 0),
             (2 * a * cos theta, b, 0)],
          faces = [[0, 1, 2, 3], [1, 4, 5, 2]],
          mountain_folds = [[1, 2]],
          valley_folds = [[0, 1], [2, 3], [1, 4], [2, 5]]\<rparr>)"

text \<open>\<open>create_waterbomb(size)\<close>.\<close>

definition create_waterbomb :: "real \<Rightarrow> pattern_instance" where
  "create_waterbomb sz =
     \<lparr>vertices =
        [(0, 0, 0),
         (sz, 0, 0),
         (sz * cos (pi / 3), sz * sin (pi / 3), 0),
         (- sz * cos (pi / 3), sz * sin (pi / 3), 0),
         (- sz, 0, 0),
         (- sz * cos (pi / 3), - sz * sin (pi / 3), 0),
         (sz * cos (pi / 3), - sz * sin (pi / 3), 0)],
      faces = [[0, 1, 2], [0, 2, 3], [0, 3, 4], [0, 4, 5], [0, 5, 6], [0, 6, 1]],
      mountain_folds = [[0, 2], [0, 4], [0, 6]],
      valley_folds = [[0, 1], [0, 3], [0, 5]]\<rparr>"

text \<open>Python's \<open>range(n)\<close>: empty when \<open>n \<le> 0\<close>.\<close>

definition py_range :: "int \<Rightarrow> int list" where
  "py_range n = map int [0..<nat n]"

text \<open>
  The three \<open>for i in range(num_segments)\<close> loops of \<open>create_yoshimura\<close>, each as a
  recursion over the remaining indices with the list being appended to as accumulator.
\<close>

fun vertices_loop :: "real \<Rightarrow> real \<Rightarrow> real \<Rightarrow> int list \<Rightarrow> vertex list \<Rightarrow> vertex list" where
  "vertices_loop sz angle height [] acc = acc"
| "vertices_loop sz angle height (i # rest) acc =
     (let theta = of_int i * angle
      in vertices_loop sz angle height rest
           (acc @ [(sz * cos theta, sz * sin theta, 0)]
                @ [(sz * cos theta, sz * sin theta, height)]))"

fun faces_loop :: "int \<Rightarrow> int list \<Rightarrow> int list list \<Rightarrow> int list list" where
  "faces_loop num_segments [] acc = acc"
| "faces_loop num_segments (i # rest) acc =
     (let i1 = 2 * i;
          i2 = 2 * i + 1;
          i3 = 2 * ((i + 1) mod num_segments);
          i4 = 2 * ((i + 1) mod num_segments) + 1
      in faces_loop num_segments rest (acc @ [[i1, i2, i4, i3]]))"

fun folds_loop :: "int list \<Rightarrow> int list list \<times> int list list
    \<Rightarrow> int list list \<times> int list list" where
  "folds_loop [] (mountain, valley) = (mountain, valley)"
| "folds_loop (i # rest) (mountain, valley) =
     (if i mod 2 = 0
      then folds_loop rest (mountain @ [[2 * i, 2 * i + 1]], valley)
      else folds_loop rest (mountain, valley @ [[2 * i, 2 * i + 1]]))"

text \<open>
  Dividing a Python float by a Python integer converts the integer to a float first. The
  conversion rounds to the nearest float and raises OverflowError when the result would
  exceed the largest float, that is, for integers of absolute value \<open>2^1024 - 2^970\<close> or
  more.
\<close>

definition float_limit :: int where
  "float_limit = 2 ^ 1024 - 2 ^ 970"

text \<open>
  \<open>create_yoshimura(size, num_segments)\<close>. \<open>np.pi\<close> is a Python float, so
  \<open>2 * np.pi / num_segments\<close> raises ZeroDivisionError when \<open>num_segments\<close> is 0 and
  OverflowError when \<open>num_segments\<close> is too large, in absolute value, to convert to a
  float; this is the only statement of the function that can raise. Python's \<open>%\<close> on
  integers is \<open>mod\<close> on \<open>int\<close> (the result has the sign of the divisor). Lists are
  unbounded here: the memory an invocation needs is not modelled.
\<close>

definition create_yoshimura :: "real \<Rightarrow> int \<Rightarrow> py_error + pattern_instance" where
  "create_yoshimura sz num_segments =
     (if num_segments = 0 then Inl ZeroDivisionError
      else if float_limit \<le> \<bar>num_segments\<bar> then Inl OverflowError
      else
        let angle = 2 * pi / of_int num_segments;
            height = sz / 2;
            folds = folds_loop (py_range num_segments) ([], [])
        in Inr \<lparr>vertices = vertices_loop sz angle height (py_range num_segments) [],
                faces = faces_loop num_segments (py_range num_segments) [],
                mountain_folds = fst folds,
                valley_folds = snd folds\<rparr>)"

section \<open>Scene renderer\<close>

text \<open>
  The plotly traces the renderer constructs, with the attributes the source sets. The
  dictionaries \<open>line\<close> and \<open>margin\<close> are association lists from keys to values.
\<close>

record mesh3d =
  mesh_x :: "real list"
  mesh_y :: "real list"
  mesh_z :: "real list"
  mesh_i :: "int list"
  mesh_j :: "int list"
  mesh_k :: "int list"
  mesh_opacity :: real
  mesh_colorscale :: string

datatype line_value = Str string | Num int

record scatter3d =
  scatter_x :: "real list"
  scatter_y :: "real list"
  scatter_z :: "real list"
  scatter_mode :: string
  scatter_line :: "(string \<times> line_value) list"
  scatter_name :: string

datatype trace = Mesh3d mesh3d | Scatter3d scatter3d

record scene =
  aspectmode :: string
  xaxis_title :: string
  yaxis_title :: string
  zaxis_title :: string

record layout =
  layout_scene :: scene
  showlegend :: bool
  margin :: "(string \<times> int) list"

record figure =
  fig_data :: "trace list"
  fig_layout :: layout

text \<open>
  Indexing a Python list with an integer, as in \<open>fold[0]\<close>: a negative index counts from
  the end, an index outside \<open>[-n, n)\<close> raises IndexError, however large it is.
\<close>

definition index_at :: "'a list \<Rightarrow> int \<Rightarrow> py_error + 'a" where
  "index_at xs idx =
     (if 0 \<le> idx \<and> idx < int (length xs) then Inr (xs ! nat idx)
      else if - int (length xs) \<le> idx \<and> idx < 0 then Inr (xs ! nat (int (length xs) + idx))
      else Inl IndexError)"

text \<open>
  numpy converts an index to a 64-bit integer. For an index that fits, indexing an axis is
  as for a Python list. What numpy does with an index that does not fit depends on how it
  converts Python integers (for a list of indices, on the element type it chooses for the
  whole list) and is outside the repository; it is a parameter of the two functions
  below: \<open>big_index\<close> gives the exception for a single index (no such index is within an
  array), \<open>big_take\<close> gives the outcome for a list of indices.
\<close>

definition in_int64 :: "int \<Rightarrow> bool" where
  "in_int64 k \<longleftrightarrow> - (2 ^ 63) \<le> k \<and> k < 2 ^ 63"

text \<open>\<open>vertices[idx, c]\<close>: the row of \<open>vertices\<close> at one index.\<close>

definition np_index :: "(int \<Rightarrow> py_error) \<Rightarrow> vertex list \<Rightarrow> int \<Rightarrow> py_error + vertex" where
  "np_index big_index vs idx =
     (case index_at vs idx of
        Inr v \<Rightarrow> Inr v
      | Inl e \<Rightarrow> if in_int64 idx then Inl e else Inl (big_index idx))"

text \<open>\<open>vertices[face]\<close>: the rows of \<open>vertices\<close> selected by a list of indices.\<close>

fun np_rows :: "vertex list \<Rightarrow> int list \<Rightarrow> py_error + vertex list" where
  "np_rows vs [] = Inr []"
| "np_rows vs (idx # rest) =
     (case index_at vs idx of
        Inl e \<Rightarrow> Inl e
      | Inr v \<Rightarrow> (case np_rows vs rest of Inl e \<Rightarrow> Inl e | Inr r \<Rightarrow> Inr (v # r)))"

definition np_take :: "(vertex list \<Rightarrow> int list \<Rightarrow> py_error + vertex list)
    \<Rightarrow> vertex list \<Rightarrow> int list \<Rightarrow> py_error + vertex list" where
  "np_take big_take vs face =
     (case np_rows vs face of
        Inr r \<Rightarrow> Inr r
      | Inl e \<Rightarrow> if list_all in_int64 face then Inl e else big_take vs face)"

text \<open>The three columns \<open>[:, 0]\<close>, \<open>[:, 1]\<close>, \<open>[:, 2]\<close> of an array of vertices.\<close>

definition col0 :: "vertex list \<Rightarrow> real list" where
  "col0 vs = map fst vs"

definition col1 :: "vertex list \<Rightarrow> real list" where
  "col1 vs = map (\<lambda>v. fst (snd v)) vs"

definition col2 :: "vertex list \<Rightarrow> real list" where
  "col2 vs = map (\<lambda>v. snd (snd v)) vs"

text \<open>Python's \<open>range(a, b)\<close>.\<close>

definition py_range2 :: "int \<Rightarrow> int \<Rightarrow> int list" where
  "py_range2 a b = map (\<lambda>k. a + int k) [0..<nat (b - a)]"

text \<open>
  The first loop of \<open>plot_origami_lattice\<close>, over the faces. The closed outlines \<open>x\<close>,
  \<open>y\<close>, \<open>z\<close> are computed and not used, as in the source; computing them reads
  \<open>vertices_face[0, 0]\<close>, which raises IndexError for an empty face (the index 0 fits
  a 64-bit integer, so this is as for a list). plotly checks the
  \<open>colorscale\<close> attribute when \<open>go.Mesh3d\<close> is constructed and raises ValueError for a name
  it does not know; which names plotly knows is outside the repository and is the
  parameter \<open>recognized\<close>. \<open>[0]*(len(face)-2)\<close> is empty for a non-positive count.
\<close>

fun plot_faces :: "(string \<Rightarrow> bool) \<Rightarrow> (vertex list \<Rightarrow> int list \<Rightarrow> py_error + vertex list)
    \<Rightarrow> vertex list \<Rightarrow> string \<Rightarrow> int list list \<Rightarrow> trace list \<Rightarrow> py_error + trace list" where
  "plot_faces recognized big_take vs colorscale [] traces = Inr traces"
| "plot_faces recognized big_take vs colorscale (face # rest) traces =
     (case np_take big_take vs face of
        Inl e \<Rightarrow> Inl e
      | Inr vertices_face \<Rightarrow>
          (case index_at vertices_face 0 of
             Inl e \<Rightarrow> Inl e
           | Inr v0 \<Rightarrow>
               (let x = col0 vertices_face @ [fst v0];
                    y = col1 vertices_face @ [fst (snd v0)];
                    z = col2 vertices_face @ [snd (snd v0)]
                in if \<not> recognized colorscale then Inl ValueError
                   else plot_faces recognized big_take vs colorscale rest
                          (traces @
                           [Mesh3d \<lparr>mesh_x = col0 vertices_face,
                                    mesh_y = col1 vertices_face,
                                    mesh_z = col2 vertices_face,
                                    mesh_i = replicate (nat (int (length face) - 2)) 0,
                                    mesh_j = py_range2 1 (int (length face) - 1),
                                    mesh_k = py_range2 2 (int (length face)),
                                    mesh_opacity = 7 / 10,
                                    mesh_colorscale = colorscale\<rparr>]))))"

text \<open>
  \<open>vertices[fold[0], c]\<close> and \<open>vertices[fold[1], c]\<close> for the two ends of a fold: the
  vertices at the first two entries of the fold (written \<open>fld\<close>, as \<open>fold\<close> is a
  constant of HOL).
\<close>

definition fold_ends :: "(int \<Rightarrow> py_error) \<Rightarrow> vertex list \<Rightarrow> int list
    \<Rightarrow> py_error + vertex \<times> vertex" where
  "fold_ends big_index vs fld =
     (case index_at fld 0 of
        Inl e \<Rightarrow> Inl e
      | Inr f0 \<Rightarrow>
          (case np_index big_index vs f0 of
             Inl e \<Rightarrow> Inl e
           | Inr p0 \<Rightarrow>
               (case index_at fld 1 of
                  Inl e \<Rightarrow> Inl e
                | Inr f1 \<Rightarrow>
                    (case np_index big_index vs f1 of
                       Inl e \<Rightarrow> Inl e
                     | Inr p1 \<Rightarrow> Inr (p0, p1)))))"

text \<open>
  The second and third loop, over the mountain and the valley folds; they differ in the
  \<open>line\<close> dictionary and the \<open>name\<close> of the trace only, which are parameters here.
\<close>

fun plot_folds :: "(int \<Rightarrow> py_error) \<Rightarrow> vertex list \<Rightarrow> (string \<times> line_value) list \<Rightarrow> string
    \<Rightarrow> int list list \<Rightarrow> trace list \<Rightarrow> py_error + trace list" where
  "plot_folds big_index vs line name [] traces = Inr traces"
| "plot_folds big_index vs line name (fld # rest) traces =
     (case fold_ends big_index vs fld of
        Inl e \<Rightarrow> Inl e
      | Inr (p0, p1) \<Rightarrow>
          plot_folds big_index vs line name rest
            (traces @
             [Scatter3d \<lparr>scatter_x = [fst p0, fst p1],
                         scatter_y = [fst (snd p0), fst (snd p1)],
                         scatter_z = [snd (snd p0), snd (snd p1)],
                         scatter_mode = ''lines'',
                         scatter_line = line,
                         scatter_name = name\<rparr>]))"

text \<open>
  \<open>plot_origami_lattice(vertices, faces, mountain_folds, valley_folds, colorscale)\<close>; the
  pattern instance is passed as one record, after the three parameters that stand for
  plotly and numpy.
\<close>

definition plot_origami_lattice :: "(string \<Rightarrow> bool) \<Rightarrow> (int \<Rightarrow> py_error)
    \<Rightarrow> (vertex list \<Rightarrow> int list \<Rightarrow> py_error + vertex list)
    \<Rightarrow> pattern_instance \<Rightarrow> string \<Rightarrow> py_error + figure" where
  "plot_origami_lattice recognized big_index big_take p colorscale =
     (case plot_faces recognized big_take (vertices p) colorscale (faces p) [] of
        Inl e \<Rightarrow> Inl e
      | Inr t1 \<Rightarrow>
          (case plot_folds big_index (vertices p) [(''color'', Str ''red''), (''width'', Num 4)]
                  ''Mountain fold'' (mountain_folds p) t1 of
             Inl e \<Rightarrow> Inl e
           | Inr t2 \<Rightarrow>
               (case plot_folds big_index (vertices p)
                       [(''color'', Str ''blue''), (''width'', Num 4), (''dash'', Str ''dash'')]
                       ''Valley fold'' (valley_folds p) t2 of
                  Inl e \<Rightarrow> Inl e
                | Inr t3 \<Rightarrow>
                    Inr \<lparr>fig_data = t3,
                         fig_layout =
                           \<lparr>layout_scene =
                              \<lparr>aspectmode = ''cube'', xaxis_title = ''X'',
                               yaxis_title = ''Y'', zaxis_title = ''Z''\<rparr>,
                            showlegend = True,
                            margin = [(''l'', 0), (''r'', 0), (''t'', 0), (''b'', 0)]\<rparr>\<rparr>)))"

section \<open>Properties of pattern instances and scenes\<close>

text \<open>A vertex index is valid when it is at least 0 and less than the number of vertices.\<close>

definition valid_index :: "vertex list \<Rightarrow> int \<Rightarrow> bool" where
  "valid_index vs k \<longleftrightarrow> 0 \<le> k \<and> k < int (length vs)"

text \<open>Every index of every face, mountain fold and valley fold is valid.\<close>

definition indices_in_bounds :: "pattern_instance \<Rightarrow> bool" where
  "indices_in_bounds p \<longleftrightarrow>
     list_all (list_all (valid_index (vertices p))) (faces p) \<and>
     list_all (list_all (valid_index (vertices p))) (mountain_folds p) \<and>
     list_all (list_all (valid_index (vertices p))) (valley_folds p)"

text \<open>Two fold edges are the same unordered pair when they have the same set of ends.\<close>

definition same_edge :: "int list \<Rightarrow> int list \<Rightarrow> bool" where
  "same_edge e1 e2 \<longleftrightarrow> set e1 = set e2"

definition folds_disjoint :: "pattern_instance \<Rightarrow> bool" where
  "folds_disjoint p \<longleftrightarrow>
     list_all (\<lambda>m. list_all (\<lambda>v. \<not> same_edge m v) (valley_folds p)) (mountain_folds p)"

text \<open>
  The edges of a face: each entry paired with its cyclic successor. A fold lies on a face
  when its two indices are, in either order, an edge of that face.
\<close>

definition face_edges :: "int list \<Rightarrow> (int \<times> int) list" where
  "face_edges f = zip f (rotate1 f)"

definition on_face :: "int list list \<Rightarrow> int list \<Rightarrow> bool" where
  "on_face fs e \<longleftrightarrow>
     list_ex (\<lambda>f. list_ex (\<lambda>(a, b). e = [a, b] \<or> e = [b, a]) (face_edges f)) fs"

definition folds_on_faces :: "pattern_instance \<Rightarrow> bool" where
  "folds_on_faces p \<longleftrightarrow>
     list_all (on_face (faces p)) (mountain_folds p) \<and>
     list_all (on_face (faces p)) (valley_folds p)"

text \<open>
  A list of faces is a closed ring in the ordered sense when the last two indices of each
  face are, in that order, the first two indices of the next face (cyclically); in the
  reversed sense when they are the first two indices of the next face in reverse order.
\<close>

definition last_two :: "int list \<Rightarrow> int list" where
  "last_two f = drop (length f - 2) f"

definition ring_ordered :: "int list list \<Rightarrow> bool" where
  "ring_ordered fs \<longleftrightarrow>
     list_all (\<lambda>i. last_two (fs ! i) = take 2 (fs ! ((i + 1) mod length fs))) [0..<length fs]"

definition ring_reversed :: "int list list \<Rightarrow> bool" where
  "ring_reversed fs \<longleftrightarrow>
     list_all (\<lambda>i. rev (last_two (fs ! i)) = take 2 (fs ! ((i + 1) mod length fs)))
       [0..<length fs]"

text \<open>
  The mesh traces of a scene in the order they were added, the triangles of a mesh trace
  (its \<open>i\<close>, \<open>j\<close>, \<open>k\<close> lists read in parallel), and the fan \<open>(0, k, k+1)\<close> for
  \<open>k = 1 .. len(face) - 2\<close> of a face.
\<close>

fun meshes :: "trace list \<Rightarrow> mesh3d list" where
  "meshes [] = []"
| "meshes (Mesh3d m # ts) = m # meshes ts"
| "meshes (Scatter3d s # ts) = meshes ts"

definition triangles :: "mesh3d \<Rightarrow> (int \<times> int \<times> int) list" where
  "triangles m = zip (mesh_i m) (zip (mesh_j m) (mesh_k m))"

definition fan :: "int list \<Rightarrow> (int \<times> int \<times> int) list" where
  "fan face = map (\<lambda>k. (0, int k, int k + 1)) [1..<length face - 1]"

text \<open>
  A pattern instance of the data model: every face has at least 3 indices, every fold is
  a pair, and every index is valid.
\<close>

definition well_formed :: "pattern_instance \<Rightarrow> bool" where
  "well_formed p \<longleftrightarrow>
     indices_in_bounds p \<and>
     list_all (\<lambda>f. 3 \<le> length f) (faces p) \<and>
     list_all (\<lambda>e. length e = 2) (mountain_folds p) \<and>
     list_all (\<lambda>e. length e = 2) (valley_folds p)"

section \<open>The loops of the Yoshimura generator in closed form\<close>

lemma vertices_loop_eq:
  "vertices_loop sz angle height ns acc =
     acc @ concat (map (\<lambda>i. [(sz * cos (of_int i * angle), sz * sin (of_int i * angle), 0),
                               (sz * cos (of_int i * angle), sz * sin (of_int i * angle), height)])
                    ns)"
  by (induction ns arbitrary: acc) (simp_all add: Let_def)

lemma faces_loop_eq:
  "faces_loop n ns acc =
     acc @ map (\<lambda>i. [2 * i, 2 * i + 1, 2 * ((i + 1) mod n) + 1, 2 * ((i + 1) mod n)]) ns"
  by (induction ns arbitrary: acc) (simp_all add: Let_def)

lemma folds_loop_eq:
  "folds_loop ns (m, v) =
     (m @ map (\<lambda>i. [2 * i, 2 * i + 1]) (filter (\<lambda>i. i mod 2 = 0) ns),
      v @ map (\<lambda>i. [2 * i, 2 * i + 1]) (filter (\<lambda>i. i mod 2 \<noteq> 0) ns))"
  by (induction ns arbitrary: m v) simp_all

lemma length_py_range: "length (py_range n) = nat n"
  by (simp add: py_range_def)

lemma nth_py_range: "i < nat n \<Longrightarrow> py_range n ! i = int i"
  by (simp add: py_range_def)

lemma in_py_range: "i \<in> set (py_range n) \<Longrightarrow> 0 \<le> i \<and> i < n"
  by (auto simp: py_range_def)


lemma py_range_6: "py_range 6 = [0, 1, 2, 3, 4, 5]"
  by (simp add: py_range_def upt_rec)

lemma py_range_3: "py_range 3 = [0, 1, 2]"
  by (simp add: py_range_def upt_rec)

lemma py_range_2: "py_range 2 = [0, 1]"
  by (simp add: py_range_def upt_rec)


lemma length_concat_pairs: "length (concat (map (\<lambda>x. [f x, g x]) xs)) = 2 * length xs"
  by (induction xs) simp_all

lemma float_limit_large: "2 ^ 64 < float_limit"
  by (simp add: float_limit_def)

lemma yoshimura_overflow:
  "float_limit \<le> \<bar>n\<bar> \<Longrightarrow> create_yoshimura sz n = Inl OverflowError"
  using float_limit_large by (auto simp: create_yoshimura_def)

lemma yoshimura_Inr:
  "n \<noteq> 0 \<Longrightarrow> \<bar>n\<bar> < float_limit \<Longrightarrow> create_yoshimura sz n =
     Inr \<lparr>vertices =
            concat (map (\<lambda>i. [(sz * cos (of_int i * (2 * pi / of_int n)),
                                sz * sin (of_int i * (2 * pi / of_int n)), 0),
                               (sz * cos (of_int i * (2 * pi / of_int n)),
                                sz * sin (of_int i * (2 * pi / of_int n)), sz / 2)])
                     (py_range n)),
          faces = map (\<lambda>i. [2 * i, 2 * i + 1, 2 * ((i + 1) mod n) + 1, 2 * ((i + 1) mod n)])
                    (py_range n),
          mountain_folds = map (\<lambda>i. [2 * i, 2 * i + 1]) (filter (\<lambda>i. i mod 2 = 0) (py_range n)),
          valley_folds = map (\<lambda>i. [2 * i, 2 * i + 1]) (filter (\<lambda>i. i mod 2 \<noteq> 0) (py_range n))\<rparr>"
  by (simp add: create_yoshimura_def Let_def vertices_loop_eq faces_loop_eq folds_loop_eq)

lemma pair_parity: "{2 * i, 2 * i + 1} = {2 * j, 2 * j + 1} \<Longrightarrow> i = (j::int)"
  by (auto simp: doubleton_eq_iff)

section \<open>Index bounds\<close>

lemma yoshimura_bounds:
  assumes "3 \<le> n" and "n < float_limit"
  shows "\<exists>p. create_yoshimura sz n = Inr p \<and> indices_in_bounds p"
proof -
  have n: "n \<noteq> 0" "\<bar>n\<bar> < float_limit" "0 < n" using assms by simp_all
  have m: "0 \<le> 2 * ((i + 1) mod n) \<and> 2 * ((i + 1) mod n) + 1 < 2 * n" for i
  proof -
    have "0 \<le> (i + 1) mod n" "(i + 1) mod n < n" using n by simp_all
    then show ?thesis by linarith
  qed
  show ?thesis
    unfolding yoshimura_Inr [OF n(1,2)]
    using m n(3)
    by (auto simp: indices_in_bounds_def valid_index_def list_all_iff length_concat_pairs
          length_py_range dest!: in_py_range)
qed

text \<open>
  C3. Every vertex index that occurs in a face, a mountain fold or a valley fold of the
  instance a generator produces is a valid index into the instance's vertex list:
  for Miura-ori with any size and angle, for Waterbomb with any size, and for Yoshimura
  with any size and any integer \<open>num_segments \<ge> 3\<close> at which the generator produces an
  instance. It produces one below the limit of the conversion to a float; from the limit
  on it raises OverflowError and there is no instance.
\<close>

theorem generators_indices_in_bounds:
  "indices_in_bounds (create_miura_ori sz angle) \<and>
   indices_in_bounds (create_waterbomb sz) \<and>
   (3 \<le> n \<and> n < float_limit \<longrightarrow>
      (\<exists>p. create_yoshimura sz n = Inr p \<and> indices_in_bounds p)) \<and>
   (float_limit \<le> n \<longrightarrow> create_yoshimura sz n = Inl OverflowError)"
proof (intro conjI impI)
  show "indices_in_bounds (create_miura_ori sz angle)"
    by (simp add: indices_in_bounds_def create_miura_ori_def valid_index_def Let_def)
  show "indices_in_bounds (create_waterbomb sz)"
    by (simp add: indices_in_bounds_def create_waterbomb_def valid_index_def)
  show "\<exists>p. create_yoshimura sz n = Inr p \<and> indices_in_bounds p"
    if "3 \<le> n \<and> n < float_limit"
    using that by (simp add: yoshimura_bounds)
  show "create_yoshimura sz n = Inl OverflowError" if "float_limit \<le> n"
    using that by (simp add: yoshimura_overflow)
qed

theorem generators_indices_in_bounds_witness:
  "(3::int) \<le> 6 \<and> 6 < float_limit \<and>
   indices_in_bounds (create_miura_ori 1 45) \<and>
   indices_in_bounds (create_waterbomb 1) \<and>
   (\<exists>p. create_yoshimura 1 6 = Inr p \<and> indices_in_bounds p) \<and>
   float_limit \<le> 2 ^ 1024 \<and>
   create_yoshimura 1 (2 ^ 1024) = Inl OverflowError"
  using generators_indices_in_bounds [where sz = 1 and angle = 45 and n = 6]
    generators_indices_in_bounds [where sz = 1 and angle = 45 and n = "2 ^ 1024"]
  by (simp add: float_limit_def)

section \<open>Mountain and valley folds are disjoint\<close>

text \<open>
  C4. For every generator the mountain folds and the valley folds of the produced
  instance are disjoint when fold edges are compared as unordered pairs of vertex
  indices: no mountain fold has the same set of ends as a valley fold. This holds for
  every size and angle, and for Yoshimura for every \<open>num_segments \<ge> 3\<close> at which the
  generator produces an instance, that is, below the limit of the conversion to a float;
  from the limit on it raises OverflowError.
\<close>

theorem generators_folds_disjoint:
  "folds_disjoint (create_miura_ori sz angle) \<and>
   folds_disjoint (create_waterbomb sz) \<and>
   (3 \<le> n \<and> n < float_limit \<longrightarrow>
      (\<exists>p. create_yoshimura sz n = Inr p \<and> folds_disjoint p)) \<and>
   (float_limit \<le> n \<longrightarrow> create_yoshimura sz n = Inl OverflowError)"
proof (intro conjI impI)
  show "folds_disjoint (create_miura_ori sz angle)"
    by (simp add: folds_disjoint_def create_miura_ori_def same_edge_def Let_def
          doubleton_eq_iff)
  show "folds_disjoint (create_waterbomb sz)"
    by (simp add: folds_disjoint_def create_waterbomb_def same_edge_def doubleton_eq_iff)
  show "\<exists>p. create_yoshimura sz n = Inr p \<and> folds_disjoint p"
    if "3 \<le> n \<and> n < float_limit"
  proof -
    have n: "n \<noteq> 0" "\<bar>n\<bar> < float_limit" using that by simp_all
    show ?thesis
      unfolding yoshimura_Inr [OF n]
      by (auto simp: folds_disjoint_def same_edge_def list_all_iff dest!: pair_parity)
  qed
  show "create_yoshimura sz n = Inl OverflowError" if "float_limit \<le> n"
    using that by (simp add: yoshimura_overflow)
qed

theorem generators_folds_disjoint_witness:
  "(3::int) \<le> 6 \<and> 6 < float_limit \<and>
   folds_disjoint (create_miura_ori 1 45) \<and>
   folds_disjoint (create_waterbomb 1) \<and>
   (\<exists>p. create_yoshimura 1 6 = Inr p \<and> folds_disjoint p) \<and>
   float_limit \<le> 2 ^ 1024 \<and>
   create_yoshimura 1 (2 ^ 1024) = Inl OverflowError"
  using generators_folds_disjoint [where sz = 1 and angle = 45 and n = 6]
    generators_folds_disjoint [where sz = 1 and angle = 45 and n = "2 ^ 1024"]
  by (simp add: float_limit_def)

section \<open>Fold edges are face edges\<close>

text \<open>
  C10. For every generator, every fold edge (mountain or valley) of the produced instance
  coincides with an edge of some face: its two vertex indices are, in one order or the
  other, cyclically consecutive entries of at least one face. This holds for every size
  and angle, and for Yoshimura for every \<open>num_segments \<ge> 3\<close> at which the generator
  produces an instance, that is, below the limit of the conversion to a float; from the
  limit on it raises OverflowError.
\<close>

theorem generators_folds_on_faces:
  "folds_on_faces (create_miura_ori sz angle) \<and>
   folds_on_faces (create_waterbomb sz) \<and>
   (3 \<le> n \<and> n < float_limit \<longrightarrow>
      (\<exists>p. create_yoshimura sz n = Inr p \<and> folds_on_faces p)) \<and>
   (float_limit \<le> n \<longrightarrow> create_yoshimura sz n = Inl OverflowError)"
proof (intro conjI impI)
  show "folds_on_faces (create_miura_ori sz angle)"
    by (simp add: folds_on_faces_def on_face_def face_edges_def create_miura_ori_def Let_def)
  show "folds_on_faces (create_waterbomb sz)"
    by (simp add: folds_on_faces_def on_face_def face_edges_def create_waterbomb_def)
  show "\<exists>p. create_yoshimura sz n = Inr p \<and> folds_on_faces p"
    if "3 \<le> n \<and> n < float_limit"
  proof -
    have n: "n \<noteq> 0" "\<bar>n\<bar> < float_limit" using that by simp_all
    show ?thesis
      unfolding yoshimura_Inr [OF n]
      by (auto simp: folds_on_faces_def on_face_def face_edges_def list_all_iff list_ex_iff)
  qed
  show "create_yoshimura sz n = Inl OverflowError" if "float_limit \<le> n"
    using that by (simp add: yoshimura_overflow)
qed

theorem generators_folds_on_faces_witness:
  "(3::int) \<le> 6 \<and> 6 < float_limit \<and>
   folds_on_faces (create_miura_ori 1 45) \<and>
   folds_on_faces (create_waterbomb 1) \<and>
   (\<exists>p. create_yoshimura 1 6 = Inr p \<and> folds_on_faces p) \<and>
   float_limit \<le> 2 ^ 1024 \<and>
   create_yoshimura 1 (2 ^ 1024) = Inl OverflowError"
  using generators_folds_on_faces [where sz = 1 and angle = 45 and n = 6]
    generators_folds_on_faces [where sz = 1 and angle = 45 and n = "2 ^ 1024"]
  by (simp add: float_limit_def)

section \<open>The Yoshimura generator\<close>






lemma yoshimura_6_Inr:
  "create_yoshimura 1 6 =
     Inr \<lparr>vertices = vertices_loop 1 (2 * pi / 6) (1 / 2) [0, 1, 2, 3, 4, 5] [],
          faces = [[0, 1, 3, 2], [2, 3, 5, 4], [4, 5, 7, 6], [6, 7, 9, 8], [8, 9, 11, 10],
                   [10, 11, 1, 0]],
          mountain_folds = [[0, 1], [4, 5], [8, 9]],
          valley_folds = [[2, 3], [6, 7], [10, 11]]\<rparr>"
  by (simp add: create_yoshimura_def float_limit_def py_range_6 Let_def)

text \<open>
  C2, as stated, fails: with size 1 and 6 segments the last two indices of face 0 are
  3, 2 and the first two indices of face 1 are 2, 3, so the ring is not closed in the
  ordered sense.
\<close>

theorem yoshimura_6_ring_ordered_counterexample:
  "(case create_yoshimura 1 6 of
      Inl e \<Rightarrow> False
    | Inr p \<Rightarrow> last_two (faces p ! 0) = [3, 2] \<and> take 2 (faces p ! 1) = [2, 3] \<and>
               \<not> ring_ordered (faces p))"
  by (simp add: yoshimura_6_Inr last_two_def ring_ordered_def)

text \<open>
  C2, amended. For the Yoshimura generator with size 1 and 6 segments the output has
  exactly 12 vertices and the 6 quadrilateral faces listed, which form a closed ring in
  which the last two indices of each face are the first two indices of the next face
  (cyclically) in reverse order, that is, the same edge as an unordered pair; there are
  exactly the 3 mountain folds of the even segments and the 3 valley folds of the odd
  segments.
\<close>

theorem yoshimura_6_instance:
  "\<exists>p. create_yoshimura 1 6 = Inr p \<and>
        length (vertices p) = 12 \<and>
        faces p = [[0, 1, 3, 2], [2, 3, 5, 4], [4, 5, 7, 6], [6, 7, 9, 8], [8, 9, 11, 10],
                   [10, 11, 1, 0]] \<and>
        ring_reversed (faces p) \<and>
        mountain_folds p = [[0, 1], [4, 5], [8, 9]] \<and>
        valley_folds p = [[2, 3], [6, 7], [10, 11]]"
  by (simp add: yoshimura_6_Inr last_two_def ring_reversed_def upt_rec Let_def)

section \<open>The Miura-ori generator\<close>

text \<open>
  C5. For every size (in particular every size > 0) and every angle the Miura-ori
  generator returns exactly the 6 vertices \<open>v0 = (0,0,0)\<close>, \<open>v1 = (a cos \<theta>, 0, a sin \<theta>)\<close>,
  \<open>v2 = (a cos \<theta>, b, a sin \<theta>)\<close>, \<open>v3 = (0, b, 0)\<close>, \<open>v4 = (2a cos \<theta>, 0, 0)\<close>,
  \<open>v5 = (2a cos \<theta>, b, 0)\<close> with \<open>a = b = size\<close> and \<open>\<theta> = radians(angle)\<close>, exactly the two
  faces \<open>[0,1,2,3]\<close> and \<open>[1,4,5,2]\<close>, exactly one mountain fold \<open>[1,2]\<close> and exactly the four
  valley folds \<open>[0,1]\<close>, \<open>[2,3]\<close>, \<open>[1,4]\<close>, \<open>[2,5]\<close>. For size 1 and angle 45 degrees,
  vertex 1 is \<open>(cos 45\<degree>, 0, sin 45\<degree>)\<close>, both coordinates being \<open>\<surd>2 / 2\<close>.
\<close>

theorem miura_ori_instance:
  "create_miura_ori sz angle =
     \<lparr>vertices =
        [(0, 0, 0),
         (sz * cos (radians angle), 0, sz * sin (radians angle)),
         (sz * cos (radians angle), sz, sz * sin (radians angle)),
         (0, sz, 0),
         (2 * sz * cos (radians angle), 0, 0),
         (2 * sz * cos (radians angle), sz, 0)],
      faces = [[0, 1, 2, 3], [1, 4, 5, 2]],
      mountain_folds = [[1, 2]],
      valley_folds = [[0, 1], [2, 3], [1, 4], [2, 5]]\<rparr> \<and>
   length (vertices (create_miura_ori sz angle)) = 6 \<and>
   radians 45 = pi / 4 \<and>
   vertices (create_miura_ori 1 45) ! 1 = (cos (pi / 4), 0, sin (pi / 4)) \<and>
   vertices (create_miura_ori 1 45) ! 1 = (sqrt 2 / 2, 0, sqrt 2 / 2)"
proof -
  have r: "radians 45 = pi / 4" by (simp add: radians_def)
  show ?thesis
    unfolding r by (simp add: create_miura_ori_def Let_def r cos_45 sin_45)
qed

section \<open>The Waterbomb generator\<close>

lemma cos_sin_thirds:
  "cos (2 * pi / 3) = - (1 / 2)" "sin (2 * pi / 3) = sqrt 3 / 2"
  "cos (4 * pi / 3) = - (1 / 2)" "sin (4 * pi / 3) = - (sqrt 3 / 2)"
  "cos (5 * pi / 3) = 1 / 2" "sin (5 * pi / 3) = - (sqrt 3 / 2)"
proof -
  have e2: "2 * pi / 3 = pi - pi / 3" by simp
  have e4: "4 * pi / 3 = pi / 3 + pi" by simp
  have e5: "5 * pi / 3 = 2 * pi - pi / 3" by simp
  show "cos (2 * pi / 3) = - (1 / 2)"
    unfolding e2 cos_pi_minus by (simp add: cos_60)
  show "sin (2 * pi / 3) = sqrt 3 / 2"
    unfolding e2 sin_pi_minus by (simp add: sin_60)
  show "cos (4 * pi / 3) = - (1 / 2)"
    unfolding e4 cos_periodic_pi by (simp add: cos_60)
  show "sin (4 * pi / 3) = - (sqrt 3 / 2)"
    unfolding e4 sin_periodic_pi by (simp add: sin_60)
  show "cos (5 * pi / 3) = 1 / 2"
    unfolding e5 cos_2pi_minus by (simp add: cos_60)
  show "sin (5 * pi / 3) = - (sqrt 3 / 2)"
    unfolding e5 sin_2pi_minus by (simp add: sin_60)
qed

text \<open>
  C6. For every size (in particular every size > 0) the Waterbomb generator returns
  exactly 7 vertices: the center at the origin, followed by 6 vertices at 60 degree
  increments (angle \<open>k \<sqdot> \<pi>/3\<close> for \<open>k = 0, \<dots>, 5\<close>) on the circle of radius \<open>size\<close>, all with
  \<open>z = 0\<close>; and exactly 6 triangular faces, face \<open>i\<close> joining the center, vertex \<open>i + 1\<close>
  and the next vertex on the circle (\<open>((i + 1) mod 6) + 1\<close>). The spokes from the center
  to vertices 2, 4, 6 are the mountain folds and the spokes to vertices 1, 3, 5 are the
  valley folds. For size 1, vertex 1 is \<open>(1, 0, 0)\<close> and vertex 2 is
  \<open>(cos 60\<degree>, sin 60\<degree>, 0) = (1/2, \<surd>3 / 2, 0)\<close>.
\<close>

theorem waterbomb_instance:
  "vertices (create_waterbomb sz) =
     (0, 0, 0) #
     map (\<lambda>k. (sz * cos (real k * (pi / 3)), sz * sin (real k * (pi / 3)), 0)) [0..<6] \<and>
   length (vertices (create_waterbomb sz)) = 7 \<and>
   faces (create_waterbomb sz) =
     map (\<lambda>i. [0, int i + 1, int ((i + 1) mod 6) + 1]) [0..<6] \<and>
   faces (create_waterbomb sz) =
     [[0, 1, 2], [0, 2, 3], [0, 3, 4], [0, 4, 5], [0, 5, 6], [0, 6, 1]] \<and>
   mountain_folds (create_waterbomb sz) = [[0, 2], [0, 4], [0, 6]] \<and>
   valley_folds (create_waterbomb sz) = [[0, 1], [0, 3], [0, 5]] \<and>
   vertices (create_waterbomb 1) ! 1 = (1, 0, 0) \<and>
   vertices (create_waterbomb 1) ! 2 = (cos (pi / 3), sin (pi / 3), 0) \<and>
   vertices (create_waterbomb 1) ! 2 = (1 / 2, sqrt 3 / 2, 0)"
proof -
  have u: "[0..<6] = [0, 1, 2, 3, 4, 5]" by (simp add: upt_rec)
  show ?thesis
    unfolding u
    by (simp add: create_waterbomb_def cos_sin_thirds cos_60 sin_60)
qed

section \<open>Degenerate parameters\<close>

text \<open>
  C1, as stated, fails: the generators do not check their parameters. With size 0 the
  Waterbomb generator returns an instance whose 7 vertices all lie at the origin, and
  with 2 segments the Yoshimura generator returns an instance of 4 vertices whose two
  faces cover the same quadrilateral.
\<close>

theorem degenerate_inputs_counterexample:
  "create_waterbomb 0 =
     \<lparr>vertices = [(0, 0, 0), (0, 0, 0), (0, 0, 0), (0, 0, 0), (0, 0, 0), (0, 0, 0), (0, 0, 0)],
      faces = [[0, 1, 2], [0, 2, 3], [0, 3, 4], [0, 4, 5], [0, 5, 6], [0, 6, 1]],
      mountain_folds = [[0, 2], [0, 4], [0, 6]],
      valley_folds = [[0, 1], [0, 3], [0, 5]]\<rparr> \<and>
   create_yoshimura 1 2 =
     Inr \<lparr>vertices = [(1, 0, 0), (1, 0, 1 / 2), (- 1, 0, 0), (- 1, 0, 1 / 2)],
          faces = [[0, 1, 3, 2], [2, 3, 1, 0]],
          mountain_folds = [[0, 1]],
          valley_folds = [[2, 3]]\<rparr>"
  by (simp add: create_waterbomb_def create_yoshimura_def float_limit_def py_range_2 Let_def)

text \<open>
  C1, amended. For the degenerate inputs the generators do not fail with an
  InvalidParameter condition; they return a pattern instance, with these exceptions for
  the segment count. For size \<open>\<le> 0\<close> the Miura-ori generator returns an instance of 6
  vertices and 2 faces and the Waterbomb generator one of 7 vertices and 6 faces (for
  size 0 all of these vertices lie at the origin), and the Yoshimura generator, for a
  count \<open>\<ge> 3\<close> below the limit of the conversion to a float, one of \<open>2 \<sqdot> num_segments\<close>
  vertices and \<open>num_segments\<close> faces. For every size and \<open>num_segments < 3\<close> the Yoshimura
  generator returns an instance when the count is 1, 2 or negative and above minus that
  limit, with \<open>2 \<sqdot> max(num_segments, 0)\<close> vertices and \<open>max(num_segments, 0)\<close> faces
  (for 2 segments the two faces are \<open>[0,1,3,2]\<close> and \<open>[2,3,1,0]\<close>); for the count 0 it
  raises ZeroDivisionError, and for a count at or below minus the limit it raises
  OverflowError.
\<close>

theorem degenerate_inputs_not_rejected:
  "(sz \<le> 0 \<longrightarrow>
      length (vertices (create_miura_ori sz angle)) = 6 \<and>
      length (faces (create_miura_ori sz angle)) = 2 \<and>
      length (vertices (create_waterbomb sz)) = 7 \<and>
      length (faces (create_waterbomb sz)) = 6) \<and>
   set (vertices (create_miura_ori 0 angle)) = {(0, 0, 0)} \<and>
   set (vertices (create_waterbomb 0)) = {(0, 0, 0)} \<and>
   (sz \<le> 0 \<and> 3 \<le> n \<and> n < float_limit \<longrightarrow>
      (\<exists>p. create_yoshimura sz n = Inr p \<and>
            length (vertices p) = 2 * nat n \<and> length (faces p) = nat n)) \<and>
   (n < 3 \<and> n \<noteq> 0 \<and> - float_limit < n \<longrightarrow>
      (\<exists>p. create_yoshimura sz n = Inr p \<and>
            length (vertices p) = 2 * nat n \<and> length (faces p) = nat n)) \<and>
   (\<exists>p. create_yoshimura sz 2 = Inr p \<and> faces p = [[0, 1, 3, 2], [2, 3, 1, 0]]) \<and>
   create_yoshimura sz 0 = Inl ZeroDivisionError \<and>
   (n \<le> - float_limit \<longrightarrow> create_yoshimura sz n = Inl OverflowError)"
proof -
  have returns: "\<exists>p. create_yoshimura sz n = Inr p \<and>
      length (vertices p) = 2 * nat n \<and> length (faces p) = nat n"
    if n: "n \<noteq> 0" "\<bar>n\<bar> < float_limit"
    unfolding yoshimura_Inr [OF n]
    by (simp add: length_concat_pairs length_py_range)
  have big: "(3::int) < float_limit"
    using float_limit_large by simp
  show ?thesis
  proof (intro conjI impI)
    show "length (vertices (create_miura_ori sz angle)) = 6"
      by (simp add: create_miura_ori_def Let_def)
    show "length (faces (create_miura_ori sz angle)) = 2"
      by (simp add: create_miura_ori_def Let_def)
    show "length (vertices (create_waterbomb sz)) = 7"
      by (simp add: create_waterbomb_def)
    show "length (faces (create_waterbomb sz)) = 6"
      by (simp add: create_waterbomb_def)
    show "set (vertices (create_miura_ori 0 angle)) = {(0, 0, 0)}"
      by (simp add: create_miura_ori_def Let_def)
    show "set (vertices (create_waterbomb 0)) = {(0, 0, 0)}"
      by (simp add: create_waterbomb_def)
    show "\<exists>p. create_yoshimura sz n = Inr p \<and>
            length (vertices p) = 2 * nat n \<and> length (faces p) = nat n"
      if "sz \<le> 0 \<and> 3 \<le> n \<and> n < float_limit"
      using that by (intro returns) simp_all
    show "\<exists>p. create_yoshimura sz n = Inr p \<and>
            length (vertices p) = 2 * nat n \<and> length (faces p) = nat n"
      if "n < 3 \<and> n \<noteq> 0 \<and> - float_limit < n"
      using that big by (intro returns) (simp, linarith)
    show "\<exists>p. create_yoshimura sz 2 = Inr p \<and> faces p = [[0, 1, 3, 2], [2, 3, 1, 0]]"
      by (simp add: create_yoshimura_def float_limit_def py_range_2 Let_def)
    show "create_yoshimura sz 0 = Inl ZeroDivisionError"
      by (simp add: create_yoshimura_def)
    show "create_yoshimura sz n = Inl OverflowError" if "n \<le> - float_limit"
      using that by (intro yoshimura_overflow) simp
  qed
qed

theorem degenerate_inputs_not_rejected_witness:
  "(- 1 :: real) \<le> 0 \<and>
   length (vertices (create_miura_ori (- 1) 45)) = 6 \<and>
   length (vertices (create_waterbomb (- 1))) = 7 \<and>
   (3 :: int) \<le> 4 \<and> 4 < float_limit \<and>
   (\<exists>p. create_yoshimura (- 1) 4 = Inr p \<and> length (vertices p) = 8 \<and> length (faces p) = 4) \<and>
   (- 2 :: int) < 3 \<and> (- 2 :: int) \<noteq> 0 \<and> - float_limit < - 2 \<and>
   (\<exists>p. create_yoshimura (- 1) (- 2) = Inr p \<and> vertices p = [] \<and> faces p = []) \<and>
   create_yoshimura (- 1) 0 = Inl ZeroDivisionError \<and>
   - (2 ^ 1024) \<le> - float_limit \<and>
   create_yoshimura (- 1) (- (2 ^ 1024)) = Inl OverflowError"
  using degenerate_inputs_not_rejected [where sz = "- 1" and angle = 45 and n = 4]
    degenerate_inputs_not_rejected [where sz = "- 1" and angle = 45 and n = "- 2"]
    degenerate_inputs_not_rejected [where sz = "- 1" and angle = 45 and n = "- (2 ^ 1024)"]
  by (auto simp: float_limit_def)

section \<open>The renderer\<close>

lemma index_at_valid:
  "0 \<le> k \<Longrightarrow> k < int (length xs) \<Longrightarrow> index_at xs k = Inr (xs ! nat k)"
  by (simp add: index_at_def)

lemma np_rows_valid:
  "list_all (valid_index vs) face \<Longrightarrow> np_rows vs face = Inr (map (\<lambda>k. vs ! nat k) face)"
  by (induction face) (simp_all add: valid_index_def index_at_valid)

lemma np_take_valid:
  "list_all (valid_index vs) face \<Longrightarrow>
     np_take big_take vs face = Inr (map (\<lambda>k. vs ! nat k) face)"
  by (simp add: np_take_def np_rows_valid)

lemma np_index_valid:
  "valid_index vs k \<Longrightarrow> np_index big_index vs k = Inr (vs ! nat k)"
  by (simp add: np_index_def valid_index_def index_at_valid)

lemma plot_faces_valid:
  assumes "recognized colorscale"
    and "list_all (list_all (valid_index vs)) fs"
    and "list_all (\<lambda>f. 3 \<le> length f) fs"
  shows "plot_faces recognized big_take vs colorscale fs traces =
           Inr (traces @
                map (\<lambda>face. Mesh3d
                       \<lparr>mesh_x = col0 (map (\<lambda>k. vs ! nat k) face),
                        mesh_y = col1 (map (\<lambda>k. vs ! nat k) face),
                        mesh_z = col2 (map (\<lambda>k. vs ! nat k) face),
                        mesh_i = replicate (nat (int (length face) - 2)) 0,
                        mesh_j = py_range2 1 (int (length face) - 1),
                        mesh_k = py_range2 2 (int (length face)),
                        mesh_opacity = 7 / 10,
                        mesh_colorscale = colorscale\<rparr>) fs)"
  using assms
proof (induction fs arbitrary: traces)
  case Nil
  then show ?case by simp
next
  case (Cons face fs)
  have t: "np_take big_take vs face = Inr (map (\<lambda>k. vs ! nat k) face)"
    using Cons.prems(2) by (simp add: np_take_valid)
  have "0 < length face" using Cons.prems(3) by (cases face) simp_all
  then have h: "index_at (map (\<lambda>k. vs ! nat k) face) 0 = Inr (vs ! nat (face ! 0))"
    by (simp add: index_at_def)
  have rest: "list_all (list_all (valid_index vs)) fs" "list_all (\<lambda>f. 3 \<le> length f) fs"
    using Cons.prems by simp_all
  show ?case
    by (simp add: t h Let_def Cons.prems(1) Cons.IH [OF Cons.prems(1) rest])
qed

lemma fold_ends_valid:
  assumes "length fld = 2" and "list_all (valid_index vs) fld"
  shows "fold_ends big_index vs fld = Inr (vs ! nat (fld ! 0), vs ! nat (fld ! 1))"
proof -
  obtain a b where ab: "fld = [a, b]"
    using assms(1) by (cases fld; cases "tl fld") auto
  show ?thesis
    using assms(2) unfolding ab
    by (simp add: fold_ends_def index_at_def np_index_valid)
qed

lemma plot_folds_valid:
  assumes "list_all (\<lambda>e. length e = 2) es" and "list_all (list_all (valid_index vs)) es"
  shows "plot_folds big_index vs line name es traces =
           Inr (traces @
                map (\<lambda>fld. Scatter3d
                       \<lparr>scatter_x = [fst (vs ! nat (fld ! 0)), fst (vs ! nat (fld ! 1))],
                        scatter_y = [fst (snd (vs ! nat (fld ! 0))), fst (snd (vs ! nat (fld ! 1)))],
                        scatter_z = [snd (snd (vs ! nat (fld ! 0))), snd (snd (vs ! nat (fld ! 1)))],
                        scatter_mode = ''lines'',
                        scatter_line = line,
                        scatter_name = name\<rparr>) es)"
  using assms
  by (induction es arbitrary: traces) (simp_all add: fold_ends_valid)

lemma meshes_append: "meshes (ts @ us) = meshes ts @ meshes us"
  by (induction ts rule: meshes.induct) simp_all

lemma meshes_map_Mesh3d: "meshes (map (\<lambda>x. Mesh3d (f x)) xs) = map f xs"
  by (induction xs) simp_all

lemma meshes_map_Scatter3d: "meshes (map (\<lambda>x. Scatter3d (f x)) xs) = []"
  by (induction xs) simp_all

lemma fan_triangles:
  "zip (replicate (nat (int n - 2)) 0) (zip (py_range2 1 (int n - 1)) (py_range2 2 (int n))) =
     map (\<lambda>k. (0, int k, int k + 1)) [1..<n - 1]"
  by (rule nth_equalityI) (auto simp: py_range2_def)

lemma columns_zip: "zip (col0 vs) (zip (col1 vs) (col2 vs)) = vs"
  by (induction vs) (simp_all add: col0_def col1_def col2_def)

text \<open>
  C8. For every pattern instance of the data model (faces of at least 3 indices, folds
  that are pairs, all indices valid) and every recognized color scheme, the renderer
  returns a scene with exactly one mesh surface per face, in the order of the faces,
  whatever numpy does with indices that do not fit a 64-bit integer (none occurs). The
  surface of a face lies on the vertices of the face, its triangles are exactly the fan
  \<open>(0, k, k + 1)\<close> for \<open>k = 1 .. len(face) - 2\<close> in local indices, its opacity is 0.7 and its
  color scheme is the requested one.
\<close>

theorem renderer_fan_triangulation:
  assumes "well_formed p" and "recognized colorscale"
  shows "\<exists>fig. plot_origami_lattice recognized big_index big_take p colorscale = Inr fig \<and>
           length (meshes (fig_data fig)) = length (faces p) \<and>
           map triangles (meshes (fig_data fig)) = map fan (faces p) \<and>
           map (\<lambda>m. zip (mesh_x m) (zip (mesh_y m) (mesh_z m))) (meshes (fig_data fig)) =
             map (map (\<lambda>k. vertices p ! nat k)) (faces p) \<and>
           list_all (\<lambda>m. mesh_opacity m = 7 / 10 \<and> mesh_colorscale m = colorscale)
             (meshes (fig_data fig))"
proof -
  have f: "list_all (list_all (valid_index (vertices p))) (faces p)"
    "list_all (\<lambda>f. 3 \<le> length f) (faces p)"
    and m: "list_all (\<lambda>e. length e = 2) (mountain_folds p)"
    "list_all (list_all (valid_index (vertices p))) (mountain_folds p)"
    and v: "list_all (\<lambda>e. length e = 2) (valley_folds p)"
    "list_all (list_all (valid_index (vertices p))) (valley_folds p)"
    using assms(1) by (simp_all add: well_formed_def indices_in_bounds_def)
  show ?thesis
    unfolding plot_origami_lattice_def
      plot_faces_valid [where recognized = recognized, OF assms(2) f]
      sum.case plot_folds_valid [OF m] plot_folds_valid [OF v]
    by (simp add: meshes_append meshes_map_Mesh3d meshes_map_Scatter3d triangles_def
          fan_triangles columns_zip fan_def list_all_iff comp_def)
qed

theorem renderer_fan_triangulation_witness:
  "well_formed (create_waterbomb 1) \<and>
   ''Viridis'' \<in> set [''Viridis'', ''Plasma'', ''Inferno'', ''Magma'', ''Rainbow''] \<and>
   (\<exists>fig. plot_origami_lattice
            (\<lambda>s. s \<in> set [''Viridis'', ''Plasma'', ''Inferno'', ''Magma'', ''Rainbow''])
            (\<lambda>k. OverflowError) (\<lambda>vs face. Inl IndexError)
            (create_waterbomb 1) ''Viridis'' = Inr fig \<and>
          length (meshes (fig_data fig)) = 6 \<and>
          map triangles (meshes (fig_data fig)) =
            [[(0, 1, 2)], [(0, 1, 2)], [(0, 1, 2)], [(0, 1, 2)], [(0, 1, 2)], [(0, 1, 2)]])"
proof -
  have w: "well_formed (create_waterbomb 1)"
    by (simp add: well_formed_def indices_in_bounds_def valid_index_def create_waterbomb_def)
  have c: "''Viridis'' \<in> set [''Viridis'', ''Plasma'', ''Inferno'', ''Magma'', ''Rainbow'']"
    by simp
  have fs: "map fan (faces (create_waterbomb 1)) =
      [[(0, 1, 2)], [(0, 1, 2)], [(0, 1, 2)], [(0, 1, 2)], [(0, 1, 2)], [(0, 1, 2)]]"
    by (simp add: fan_def create_waterbomb_def upt_rec)
  have l: "length (faces (create_waterbomb 1)) = 6"
    by (simp add: create_waterbomb_def)
  note r = renderer_fan_triangulation
    [where recognized = "\<lambda>s. s \<in> set [''Viridis'', ''Plasma'', ''Inferno'', ''Magma'', ''Rainbow'']"
      and big_index = "\<lambda>k. OverflowError" and big_take = "\<lambda>vs face. Inl IndexError",
      OF w c, unfolded fs l]
  then obtain fig where fig:
    "plot_origami_lattice
       (\<lambda>s. s \<in> set [''Viridis'', ''Plasma'', ''Inferno'', ''Magma'', ''Rainbow''])
       (\<lambda>k. OverflowError) (\<lambda>vs face. Inl IndexError)
       (create_waterbomb 1) ''Viridis'' = Inr fig"
    "length (meshes (fig_data fig)) = 6"
    "map triangles (meshes (fig_data fig)) =
       [[(0, 1, 2)], [(0, 1, 2)], [(0, 1, 2)], [(0, 1, 2)], [(0, 1, 2)], [(0, 1, 2)]]"
    by (elim exE conjE)
  show ?thesis
    by (intro conjI exI [of _ fig]) (rule w c fig)+
qed

end
